theory Spec2Isabelle
  imports Complex_Main "HOL-Library.Char_ord" "HOL-Library.List_Lexorder"
begin

section \<open>Grid values\<close>

text \<open>
  A grid cell holds a floating-point number. The model keeps the three special values the
  pipeline relies on (no-data \<open>NaN\<close>, the sentinel \<open>-inf\<close>, and \<open>+inf\<close>) and takes a finite
  value as a real number: rounding is not modelled, the propagation of the special values is.
\<close>

datatype fval = NaN | NInf | PInf | Fin real

text \<open>The infinity with the sign of \<open>a\<close>; \<open>0 * inf\<close> is no-data.\<close>

definition inf_of_sign :: "real \<Rightarrow> fval" where
  "inf_of_sign a = (if a = 0 then NaN else if 0 < a then PInf else NInf)"

fun fneg :: "fval \<Rightarrow> fval" where
  "fneg NaN = NaN"
| "fneg NInf = PInf"
| "fneg PInf = NInf"
| "fneg (Fin a) = Fin (- a)"

fun fadd :: "fval \<Rightarrow> fval \<Rightarrow> fval" where
  "fadd NaN _ = NaN"
| "fadd _ NaN = NaN"
| "fadd (Fin a) (Fin b) = Fin (a + b)"
| "fadd PInf NInf = NaN"
| "fadd NInf PInf = NaN"
| "fadd PInf _ = PInf"
| "fadd _ PInf = PInf"
| "fadd NInf _ = NInf"
| "fadd _ NInf = NInf"

definition fsub :: "fval \<Rightarrow> fval \<Rightarrow> fval" where
  "fsub a b = fadd a (fneg b)"

fun fmul :: "fval \<Rightarrow> fval \<Rightarrow> fval" where
  "fmul NaN _ = NaN"
| "fmul _ NaN = NaN"
| "fmul (Fin a) (Fin b) = Fin (a * b)"
| "fmul (Fin a) PInf = inf_of_sign a"
| "fmul (Fin a) NInf = inf_of_sign (- a)"
| "fmul PInf (Fin b) = inf_of_sign b"
| "fmul NInf (Fin b) = inf_of_sign (- b)"
| "fmul PInf PInf = PInf"
| "fmul NInf NInf = PInf"
| "fmul PInf NInf = NInf"
| "fmul NInf PInf = NInf"

text \<open>Division by a count, as the mean does it; \<open>x / 0\<close> only arises as \<open>0 / 0\<close>.\<close>

fun fdiv_count :: "fval \<Rightarrow> nat \<Rightarrow> fval" where
  "fdiv_count v 0 = NaN"
| "fdiv_count (Fin a) (Suc n) = Fin (a / real (Suc n))"
| "fdiv_count v (Suc n) = v"

text \<open>The comparison \<open>a < b\<close>: false as soon as one side is no-data.\<close>

fun flt :: "fval \<Rightarrow> fval \<Rightarrow> bool" where
  "flt NaN _ = False"
| "flt _ NaN = False"
| "flt (Fin a) (Fin b) = (a < b)"
| "flt NInf NInf = False"
| "flt NInf _ = True"
| "flt _ NInf = False"
| "flt PInf _ = False"
| "flt _ PInf = True"

text \<open>\<open>sum\<close> with \<open>skipna\<close> (the default on floats): a no-data term counts as zero.\<close>

fun nansum :: "fval list \<Rightarrow> fval" where
  "nansum [] = Fin 0"
| "nansum (v # vs) = fadd (if v = NaN then Fin 0 else v) (nansum vs)"

text \<open>\<open>mean\<close> with \<open>skipna\<close>: the sum of the valid terms over their number; no-data when
  there is no valid term.\<close>

definition nanmean :: "fval list \<Rightarrow> fval" where
  "nanmean vs = fdiv_count (nansum vs) (length (filter (\<lambda>v. v \<noteq> NaN) vs))"

definition fillna :: "fval \<Rightarrow> fval \<Rightarrow> fval" where
  "fillna v other = (if v = NaN then other else v)"

section \<open>Labelled arrays and the two canonical models\<close>

text \<open>
  A two-dimensional field over the axes \<open>x\<close> and \<open>y\<close> of its dataset is read by coordinate
  label, as the source does; only labels on the axes are ever read. The unit axis is a list
  of labels, and a variable over it is read by unit label.
\<close>

type_synonym field = "real \<Rightarrow> real \<Rightarrow> fval"

datatype error = AssertionError | KeyError | ValueError | IndexError

record dgm_ds =
  dgm_crs :: "string option"
  dgm_unit :: "string list"
  dgm_x :: "real list"
  dgm_y :: "real list"
  dgm_vars :: "string list"
  dgm_data :: "string \<Rightarrow> string \<Rightarrow> field"
  dgm_ordering :: "string \<Rightarrow> int"

record velmod_ds =
  velmod_crs :: "string option"
  velmod_unit :: "string list"
  velmod_x :: "real list"
  velmod_y :: "real list"
  velmod_kriging_type :: "string list"
  velmod_summary_statistic :: "string list"
  velmod_V0 :: "string \<Rightarrow> string \<Rightarrow> string \<Rightarrow> field"
  velmod_Vint :: "string \<Rightarrow> string \<Rightarrow> string \<Rightarrow> field"
  velmod_V0_filled :: "string \<Rightarrow> string \<Rightarrow> string \<Rightarrow> field"
  velmod_k :: "string \<Rightarrow> fval"
  velmod_ordering :: "string \<Rightarrow> int"

text \<open>
  The interpolation routine of the array library is a parameter of the sampler: it takes the
  two axes, a field over them and the query point. \<open>interp_linear\<close> below is the bilinear
  instance without extrapolation, used where a concrete interpolator is needed.
\<close>

type_synonym interp = "real list \<Rightarrow> real list \<Rightarrow> field \<Rightarrow> real \<Rightarrow> real \<Rightarrow> fval"

fun bracket :: "real list \<Rightarrow> real \<Rightarrow> (real \<times> real) option" where
  "bracket (a # b # xs) x = (if a \<le> x \<and> x \<le> b then Some (a, b) else bracket (b # xs) x)"
| "bracket _ x = None"

definition lerp :: "real \<Rightarrow> real \<Rightarrow> real \<Rightarrow> fval \<Rightarrow> fval \<Rightarrow> fval" where
  "lerp a b x va vb =
     fadd (fmul (Fin (1 - (x - a) / (b - a))) va) (fmul (Fin ((x - a) / (b - a))) vb)"

definition interp_linear :: interp where
  "interp_linear xs ys f x y =
     (case (bracket xs x, bracket ys y) of
        (Some (x0, x1), Some (y0, y1)) \<Rightarrow>
          lerp y0 y1 y (lerp x0 x1 x (f x0 y0) (f x1 y0)) (lerp x0 x1 x (f x0 y1) (f x1 y1))
      | _ \<Rightarrow> NaN)"

section \<open>The sampler\<close>

text \<open>
  The sampler is modelled at one query point \<open>(x, y)\<close> and one depth \<open>z\<close>: every operation of
  the source is elementwise over the query arrays. The depth is a finite number when it is
  given. The variable \<open>k\<close> has no spatial axes and is not interpolated. A variable of the
  result is a list of labelled values on its own unit axis.
\<close>

text \<open>\<open>np.intersect1d\<close>: the sorted, unique labels present in both arrays.\<close>

definition intersect1d :: "string list \<Rightarrow> string list \<Rightarrow> string list" where
  "intersect1d a b = sort (remdups (filter (\<lambda>u. u \<in> set b) a))"

text \<open>\<open>sortby("ordering")\<close>: a stable sort of the unit axis on the ordering variable.\<close>

definition sortby :: "(string \<Rightarrow> int) \<Rightarrow> string list \<Rightarrow> string list" where
  "sortby key units = sort_key key units"

text \<open>\<open>idxmax\<close> of a boolean array along the unit axis: the label of the first maximum,
  that is of the first \<open>True\<close>, and of the first entry when all are \<open>False\<close>.\<close>

definition idxmax :: "(string \<times> bool) list \<Rightarrow> error + string" where
  "idxmax bs =
     (case bs of
        [] \<Rightarrow> Inl ValueError
      | b # _ \<Rightarrow> (case find snd bs of Some p \<Rightarrow> Inr (fst p) | None \<Rightarrow> Inr (fst b)))"

record samples =
  s_V0 :: "(string \<times> fval) list"
  s_V0_sd :: "(string \<times> fval) list"
  s_k :: "(string \<times> fval) list"
  s_depth :: "(string \<times> fval) list"
  s_ordering :: "(string \<times> int) list"
  s_unit_samples :: "string option"
  s_unit_mask :: "(string \<times> bool) list option"
  s_Vinst :: "fval option"
  s_crs :: "string option"

text \<open>Python truthiness of the optional CRS argument.\<close>

definition truthy :: "string option \<Rightarrow> bool" where
  "truthy c = (c \<noteq> None \<and> c \<noteq> Some [])"

definition result_crs :: "string option \<Rightarrow> string option \<Rightarrow> string option" where
  "result_crs crs xcrs =
     (let c = (if \<not> truthy crs then xcrs else crs) in if truthy c then c else None)"

text \<open>The per-unit velocity profiles \<open>V0 - k * z\<close> on the unit axis of the interpolated VELMOD.\<close>

definition unit_vinst :: "(string \<times> fval) list \<Rightarrow> (string \<Rightarrow> fval) \<Rightarrow> real \<Rightarrow> (string \<times> fval) list" where
  "unit_vinst V0 k z = map (\<lambda>(u, v). (u, fsub v (fmul (k u) (Fin z)))) V0"

text \<open>\<open>unit_vinst.where(unit_mask, 0.0).sum("unit")\<close>.\<close>

definition combine :: "string \<Rightarrow> (string \<times> fval) list \<Rightarrow> fval" where
  "combine unit uv = nansum (map (\<lambda>(u, v). if u = unit then v else Fin 0) uv)"

text \<open>The units common to both datasets, and the unit axes of the two interpolated
  datasets: the selection sorted on each dataset's own ordering variable.\<close>

definition sel_units :: "dgm_ds \<Rightarrow> velmod_ds \<Rightarrow> string list" where
  "sel_units dgm velmod = intersect1d (dgm_unit dgm) (velmod_unit velmod)"

definition velmod_itp_unit :: "dgm_ds \<Rightarrow> velmod_ds \<Rightarrow> string list" where
  "velmod_itp_unit dgm velmod = sortby (velmod_ordering velmod) (sel_units dgm velmod)"

definition dgm_itp_unit :: "dgm_ds \<Rightarrow> velmod_ds \<Rightarrow> string list" where
  "dgm_itp_unit dgm velmod = sortby (dgm_ordering dgm) (sel_units dgm velmod)"

text \<open>\<open>velmod_itp["V0_filled"]\<close> at one summary statistic under simple kriging.\<close>

definition V0_filled_itp ::
  "interp \<Rightarrow> real \<Rightarrow> real \<Rightarrow> dgm_ds \<Rightarrow> velmod_ds \<Rightarrow> string \<Rightarrow> (string \<times> fval) list" where
  "V0_filled_itp itp x y dgm velmod st =
     map (\<lambda>u. (u, itp (velmod_x velmod) (velmod_y velmod) (velmod_V0_filled velmod u ''sk'' st) x y))
       (velmod_itp_unit dgm velmod)"

text \<open>\<open>dgm_itp["tvd"]\<close>.\<close>

definition tvd_itp :: "interp \<Rightarrow> real \<Rightarrow> real \<Rightarrow> dgm_ds \<Rightarrow> velmod_ds \<Rightarrow> (string \<times> fval) list" where
  "tvd_itp itp x y dgm velmod =
     map (\<lambda>u. (u, itp (dgm_x dgm) (dgm_y dgm) (dgm_data dgm ''tvd'' u) x y)) (dgm_itp_unit dgm velmod)"

text \<open>The dataset built before the depth samples are added.\<close>

definition map_samples ::
  "interp \<Rightarrow> real \<Rightarrow> real \<Rightarrow> dgm_ds \<Rightarrow> velmod_ds \<Rightarrow> string option \<Rightarrow> string option \<Rightarrow> samples" where
  "map_samples itp x y dgm velmod crs xcrs =
     \<lparr> s_V0 = V0_filled_itp itp x y dgm velmod ''mean'',
       s_V0_sd = V0_filled_itp itp x y dgm velmod ''sd'',
       s_k = map (\<lambda>u. (u, velmod_k velmod u)) (velmod_itp_unit dgm velmod),
       s_depth = tvd_itp itp x y dgm velmod,
       s_ordering = map (\<lambda>u. (u, dgm_ordering dgm u)) (dgm_itp_unit dgm velmod),
       s_unit_samples = None, s_unit_mask = None, s_Vinst = None,
       s_crs = result_crs crs xcrs \<rparr>"

text \<open>The branch \<open>if z is not None\<close>.\<close>

definition depth_samples :: "real \<Rightarrow> (string \<Rightarrow> fval) \<Rightarrow> samples \<Rightarrow> error + samples" where
  "depth_samples z k smp =
     (case idxmax (map (\<lambda>(u, d). (u, flt d (Fin z))) (s_depth smp)) of
        Inl e \<Rightarrow> Inl e
      | Inr unit \<Rightarrow>
          let uv = unit_vinst (s_V0 smp) k z
          in Inr (smp \<lparr> s_unit_samples := Some unit,
                        s_unit_mask := Some (map (\<lambda>(u, v). (u, u = unit)) uv),
                        s_Vinst := Some (combine unit uv) \<rparr>))"

definition sample_dgm_velmod ::
  "interp \<Rightarrow> real \<Rightarrow> real \<Rightarrow> real option \<Rightarrow> dgm_ds \<Rightarrow> velmod_ds \<Rightarrow> string option \<Rightarrow> string option
     \<Rightarrow> error + samples" where
  "sample_dgm_velmod itp x y z dgm velmod crs xcrs =
     (if dgm_crs dgm \<noteq> velmod_crs velmod then Inl AssertionError
      else if \<not> (''mean'' \<in> set (velmod_summary_statistic velmod)
                  \<and> ''sk'' \<in> set (velmod_kriging_type velmod)) then Inl KeyError
      else if \<not> (''sd'' \<in> set (velmod_summary_statistic velmod)) then Inl KeyError
      else if ''tvd'' \<notin> set (dgm_vars dgm) then Inl KeyError
      else
        (case z of
           None \<Rightarrow> Inr (map_samples itp x y dgm velmod crs xcrs)
         | Some zz \<Rightarrow> depth_samples zz (velmod_k velmod) (map_samples itp x y dgm velmod crs xcrs)))"

section \<open>The conversion step\<close>

definition unit_canonical_order :: "string list" where
  "unit_canonical_order =
     [''N'', ''NU'', ''NLNM'', ''NM'', ''NL'', ''CK'', ''KN'', ''KNG'', ''KNGL'', ''KNN'',
      ''S'', ''SL'', ''SG'', ''SK'', ''ATPO'', ''AT'', ''TR'', ''RN'', ''RB'', ''ZE'',
      ''RO'', ''DCC'', ''DC'', ''CL'']"

text \<open>\<open>list.index\<close>: the first position of the element; \<open>None\<close> stands for the
  \<open>ValueError\<close> raised when it is absent.\<close>

fun index_of :: "'a list \<Rightarrow> 'a \<Rightarrow> nat option" where
  "index_of [] u = None"
| "index_of (v # vs) u = (if v = u then Some 0 else map_option Suc (index_of vs u))"

text \<open>The loop that writes the canonical index of every unit into the ordering variable,
  which starts as zeros.\<close>

fun ordering_loop :: "string list \<Rightarrow> (string \<Rightarrow> int) \<Rightarrow> error + (string \<Rightarrow> int)" where
  "ordering_loop [] ord = Inr ord"
| "ordering_loop (u # us) ord =
     (case index_of unit_canonical_order u of
        None \<Rightarrow> Inl ValueError
      | Some i \<Rightarrow> ordering_loop us (ord(u := int i)))"

text \<open>All cells of a field over its axes.\<close>

definition cells :: "real list \<Rightarrow> real list \<Rightarrow> field \<Rightarrow> fval list" where
  "cells xs ys f = concat (map (\<lambda>x. map (f x) ys) xs)"

subsection \<open>VELMOD\<close>

text \<open>The merged dataset \<open>velmodxrds\<close>, before the ordering is attached.\<close>

record velmodxrds =
  vr_crs :: "string option"
  vr_unit :: "string list"
  vr_x :: "real list"
  vr_y :: "real list"
  vr_kriging_type :: "string list"
  vr_summary_statistic :: "string list"
  vr_V0 :: "string \<Rightarrow> string \<Rightarrow> string \<Rightarrow> field"
  vr_Vint :: "string \<Rightarrow> string \<Rightarrow> string \<Rightarrow> field"
  vr_k :: "string \<Rightarrow> fval"

text \<open>\<open>V0.fillna(V0.mean(["x", "y"]))\<close>: the mean is taken over the two spatial axes
  only, so there is one fill value for each unit, kriging type and statistic.\<close>

definition fill_by_mean :: "real list \<Rightarrow> real list \<Rightarrow> (string \<Rightarrow> string \<Rightarrow> string \<Rightarrow> field)
     \<Rightarrow> (string \<Rightarrow> string \<Rightarrow> string \<Rightarrow> field)" where
  "fill_by_mean xs ys V0 = (\<lambda>u kt st x y. fillna (V0 u kt st x y) (nanmean (cells xs ys (V0 u kt st))))"

definition convert_velmod :: "velmodxrds \<Rightarrow> error + velmod_ds" where
  "convert_velmod r =
     (case ordering_loop (vr_unit r) (\<lambda>_. 0) of
        Inl e \<Rightarrow> Inl e
      | Inr ord \<Rightarrow>
          if ''ZE'' \<notin> set (vr_unit r) then Inl KeyError
          else
            let V0 = (vr_V0 r)(''ZE'' := vr_Vint r ''ZE'')
            in Inr \<lparr> velmod_crs = vr_crs r,
                     velmod_unit = sortby ord (vr_unit r),
                     velmod_x = vr_x r, velmod_y = vr_y r,
                     velmod_kriging_type = vr_kriging_type r,
                     velmod_summary_statistic = vr_summary_statistic r,
                     velmod_V0 = V0,
                     velmod_Vint = vr_Vint r,
                     velmod_V0_filled = fill_by_mean (vr_x r) (vr_y r) V0,
                     velmod_k = vr_k r,
                     velmod_ordering = ord \<rparr>)"

subsection \<open>DGM\<close>

text \<open>One parsed grid file: its unit and variable (from the file name), its axes and its
  values.\<close>

record zmda =
  z_unit :: string
  z_var :: string
  z_x :: "real list"
  z_y :: "real list"
  z_val :: field
  z_crs :: "string option"

text \<open>\<open>xr.full_like(dgmds[0], -math.inf)\<close> with the unit set to \<open>DC\<close>.\<close>

definition last_entry :: "zmda \<Rightarrow> zmda" where
  "last_entry d = d \<lparr> z_val := (\<lambda>x y. NInf), z_unit := ''DC'' \<rparr>"

text \<open>The value of the stacked array at a unit, a variable and a cell: that of the file
  with this unit and variable when the cell is on the file's axes, no-data otherwise.\<close>

definition stacked :: "zmda list \<Rightarrow> string \<Rightarrow> string \<Rightarrow> field" where
  "stacked ds v u x y =
     (case find (\<lambda>d. z_unit d = u \<and> z_var d = v) ds of
        None \<Rightarrow> NaN
      | Some d \<Rightarrow> if x \<in> set (z_x d) \<and> y \<in> set (z_y d) then z_val d x y else NaN)"

text \<open>The axes of the stacked array: the sorted union of the files' labels.\<close>

definition union_axis :: "real list list \<Rightarrow> real list" where
  "union_axis axes = sort (remdups (concat axes))"

text \<open>\<open>dropna(dim, "all")\<close> on one spatial axis: a label is kept when some unit and
  variable has a value there along the other axis.\<close>

definition dropna_x :: "zmda list \<Rightarrow> string list \<Rightarrow> string list \<Rightarrow> real list \<Rightarrow> real list \<Rightarrow> real list" where
  "dropna_x ds vars units xs ys =
     filter (\<lambda>x. \<exists>v \<in> set vars. \<exists>u \<in> set units. \<exists>y \<in> set ys. stacked ds v u x y \<noteq> NaN) xs"

definition dropna_y :: "zmda list \<Rightarrow> string list \<Rightarrow> string list \<Rightarrow> real list \<Rightarrow> real list \<Rightarrow> real list" where
  "dropna_y ds vars units xs ys =
     filter (\<lambda>y. \<exists>v \<in> set vars. \<exists>u \<in> set units. \<exists>x \<in> set xs. stacked ds v u x y \<noteq> NaN) ys"

text \<open>The dataset \<open>dgmxrds\<close>: the files concatenated, unstacked on unit and variable, trimmed,
  and split by variable. A unit and variable given by two files cannot be unstacked.\<close>

record dgmxrds =
  dr_crs :: "string option"
  dr_unit :: "string list"
  dr_x :: "real list"
  dr_y :: "real list"
  dr_vars :: "string list"
  dr_data :: "string \<Rightarrow> string \<Rightarrow> field"

definition concat_unstack :: "string option \<Rightarrow> zmda list \<Rightarrow> error + dgmxrds" where
  "concat_unstack crs ds =
     (if \<not> distinct (map (\<lambda>d. (z_unit d, z_var d)) ds) then Inl ValueError
      else
        let units = sort (remdups (map z_unit ds));
            vars = sort (remdups (map z_var ds));
            xs = dropna_x ds vars units (union_axis (map z_x ds)) (union_axis (map z_y ds));
            ys = dropna_y ds vars units xs (union_axis (map z_y ds))
        in Inr \<lparr> dr_crs = crs, dr_unit = units, dr_x = xs, dr_y = ys, dr_vars = vars,
                 dr_data = stacked ds \<rparr>)"

definition convert_dgm :: "zmda list \<Rightarrow> error + dgm_ds" where
  "convert_dgm dgmds =
     (case dgmds of
        [] \<Rightarrow> Inl IndexError
      | d0 # _ \<Rightarrow>
          (case concat_unstack (z_crs d0) (dgmds @ [last_entry d0]) of
             Inl e \<Rightarrow> Inl e
           | Inr xr \<Rightarrow>
               (case ordering_loop (dr_unit xr) (\<lambda>_. 0) of
                  Inl e \<Rightarrow> Inl e
                | Inr ord \<Rightarrow>
                    Inr \<lparr> dgm_crs = dr_crs xr,
                          dgm_unit = sortby ord (dr_unit xr),
                          dgm_x = dr_x xr, dgm_y = dr_y xr,
                          dgm_vars = dr_vars xr,
                          dgm_data = dr_data xr,
                          dgm_ordering = ord \<rparr>)))"

section \<open>Example inputs\<close>

text \<open>Grid files on a small grid, a VELMOD dataset whose unit \<open>N\<close> has one no-data cell, the
  models the conversion builds from them, and the sample results at a few query points.\<close>

definition ex_zmda :: "string \<Rightarrow> real list \<Rightarrow> real \<Rightarrow> zmda" where
  "ex_zmda u xs d = \<lparr> z_unit = u, z_var = ''tvd'', z_x = xs, z_y = [0, 1],
                      z_val = (\<lambda>x y. Fin d), z_crs = Some ''epsg:23031'' \<rparr>"

definition ex_dgmds :: "zmda list" where
  "ex_dgmds = [ex_zmda ''NU'' [0, 1] (- 200), ex_zmda ''N'' [0, 1] (- 100)]"


definition ex_velmodxrds :: "string list \<Rightarrow> velmodxrds" where
  "ex_velmodxrds units =
     \<lparr> vr_crs = Some ''epsg:23031'', vr_unit = units, vr_x = [0, 1], vr_y = [0, 1],
       vr_kriging_type = [''sk''], vr_summary_statistic = [''mean'', ''sd''],
       vr_V0 = (\<lambda>u kt st x y.
          if u = ''N'' then
            (if x = 0 \<and> y = 0 then NaN
             else if st = ''mean'' then Fin (1300 + 100 * x + 200 * y) else Fin 10)
          else if u = ''NU'' then (if st = ''mean'' then Fin 1800 else Fin 20)
          else NaN),
       vr_Vint = (\<lambda>u kt st x y.
          if u = ''ZE'' then (if st = ''mean'' then Fin 1600 else Fin 30) else NaN),
       vr_k = (\<lambda>u. if u = ''N'' then Fin (1 / 2) else if u = ''NU'' then Fin (1 / 4)
                    else if u = ''ZE'' then Fin 0 else NaN) \<rparr>"

definition ex_dgm :: dgm_ds where
  "ex_dgm = projr (convert_dgm ex_dgmds)"

definition ex_velmod :: velmod_ds where
  "ex_velmod = projr (convert_velmod (ex_velmodxrds [''ZE'', ''NU'', ''N'', ''DC'']))"

definition ex_velmod_no_dc :: velmod_ds where
  "ex_velmod_no_dc = projr (convert_velmod (ex_velmodxrds [''ZE'', ''NU'', ''N'']))"

definition ex_samples_150 :: samples where
  "ex_samples_150 =
     \<lparr> s_V0 = [(''N'', Fin 1500), (''NU'', Fin 1800), (''DC'', NaN)],
       s_V0_sd = [(''N'', Fin 10), (''NU'', Fin 20), (''DC'', NaN)],
       s_k = [(''N'', Fin (1 / 2)), (''NU'', Fin (1 / 4)), (''DC'', NaN)],
       s_depth = [(''N'', Fin (- 100)), (''NU'', Fin (- 200)), (''DC'', NInf)],
       s_ordering = [(''N'', 0), (''NU'', 1), (''DC'', 22)],
       s_unit_samples = Some ''NU'',
       s_unit_mask = Some [(''N'', False), (''NU'', True), (''DC'', False)],
       s_Vinst = Some (Fin (3675 / 2)), s_crs = None \<rparr>"

definition ex_samples_250 :: samples where
  "ex_samples_250 =
     \<lparr> s_V0 = [(''N'', Fin 1500), (''NU'', Fin 1800), (''DC'', NaN)],
       s_V0_sd = [(''N'', Fin 10), (''NU'', Fin 20), (''DC'', NaN)],
       s_k = [(''N'', Fin (1 / 2)), (''NU'', Fin (1 / 4)), (''DC'', NaN)],
       s_depth = [(''N'', Fin (- 100)), (''NU'', Fin (- 200)), (''DC'', NInf)],
       s_ordering = [(''N'', 0), (''NU'', 1), (''DC'', 22)],
       s_unit_samples = Some ''DC'',
       s_unit_mask = Some [(''N'', False), (''NU'', False), (''DC'', True)],
       s_Vinst = Some (Fin 0), s_crs = None \<rparr>"



definition ex_samples_node :: samples where
  "ex_samples_node =
     \<lparr> s_V0 = [(''N'', Fin 1500), (''NU'', Fin 1800), (''DC'', NaN)],
       s_V0_sd = [(''N'', Fin 10), (''NU'', Fin 20), (''DC'', NaN)],
       s_k = [(''N'', Fin (1 / 2)), (''NU'', Fin (1 / 4)), (''DC'', NaN)],
       s_depth = [(''N'', Fin (- 100)), (''NU'', Fin (- 200)), (''DC'', NaN)],
       s_ordering = [(''N'', 0), (''NU'', 1), (''DC'', 22)],
       s_unit_samples = None, s_unit_mask = None, s_Vinst = None, s_crs = None \<rparr>"




definition ex_velmod_ze :: velmod_ds where
  "ex_velmod_ze = projr (convert_velmod (ex_velmodxrds [''ZE'']))"


text \<open>The unit the specification's wording selects: the first unit, from the top, whose base
  is greater than \<open>z\<close>.\<close>

definition spec_unit_at_depth :: "real \<Rightarrow> (string \<times> fval) list \<Rightarrow> string option" where
  "spec_unit_at_depth z tvd = map_option fst (find (\<lambda>p. flt (Fin z) (snd p)) tvd)"

section \<open>Auxiliary facts\<close>

lemma fadd_zero_left: "fadd (Fin 0) v = v"
  by (cases v) simp_all

lemma fadd_zero_right: "fadd v (Fin 0) = v"
  by (cases v) simp_all

lemma combine_absent: "u \<notin> fst ` set uv \<Longrightarrow> combine u uv = Fin 0"
  by (induction uv) (auto simp: combine_def)

lemma combine_Cons:
  "combine u ((w, v) # uv) = fadd (if w = u \<and> v \<noteq> NaN then v else Fin 0) (combine u uv)"
  by (simp add: combine_def)

lemma combine_distinct:
  "distinct (map fst uv) \<Longrightarrow> (u, v) \<in> set uv \<Longrightarrow> combine u uv = (if v = NaN then Fin 0 else v)"
proof (induction uv)
  case Nil
  then show ?case by simp
next
  case (Cons p uv)
  obtain w v' where p: "p = (w, v')" by (cases p)
  show ?case
  proof (cases "(u, v) = p")
    case True
    with Cons.prems p have "u \<notin> fst ` set uv" by auto
    with True p show ?thesis
      by (simp add: combine_Cons combine_absent fadd_zero_right)
  next
    case False
    with Cons.prems p have in_tl: "(u, v) \<in> set uv" and "w \<noteq> u" by force+
    with Cons.IH Cons.prems p show ?thesis
      by (simp add: combine_Cons fadd_zero_left)
  qed
qed

lemma set_intersect1d: "set (intersect1d a b) = set a \<inter> set b"
  by (auto simp: intersect1d_def)

lemma distinct_intersect1d: "distinct (intersect1d a b)"
  by (simp add: intersect1d_def)

lemma set_sortby: "set (sortby key us) = set us"
  by (simp add: sortby_def)

lemma distinct_sortby: "distinct (sortby key us) = distinct us"
  by (simp add: sortby_def)

lemma sorted_sortby: "sorted (map key (sortby key us))"
  by (simp add: sortby_def)

lemma idxmax_Nil_iff: "(\<exists>e. idxmax bs = Inl e) \<longleftrightarrow> bs = []"
  by (auto simp: idxmax_def split: list.splits option.splits)

lemma idxmax_none:
  "bs \<noteq> [] \<Longrightarrow> \<forall>p \<in> set bs. \<not> snd p \<Longrightarrow> idxmax bs = Inr (fst (hd bs))"
proof -
  assume ne: "bs \<noteq> []" and no: "\<forall>p \<in> set bs. \<not> snd p"
  from no have "find snd bs = None" by (auto simp: find_None_iff)
  with ne show ?thesis by (cases bs) (simp_all add: idxmax_def)
qed

lemma idxmax_first:
  assumes "\<exists>p \<in> set bs. snd p"
  shows "\<exists>pre u post. bs = pre @ (u, True) # post \<and> (\<forall>q \<in> set pre. \<not> snd q) \<and> idxmax bs = Inr u"
proof -
  have "find snd bs \<noteq> None"
    unfolding find_None_iff using assms by blast
  then obtain p where fp: "find snd bs = Some p" by blast
  then obtain i where i: "i < length bs" "snd (bs ! i)" "p = bs ! i" "\<forall>j<i. \<not> snd (bs ! j)"
    by (auto simp: find_Some_iff)
  have bs: "bs = take i bs @ (fst p, True) # drop (Suc i) bs"
    using i by (metis (full_types) id_take_nth_drop prod.collapse)
  have pre: "\<forall>q \<in> set (take i bs). \<not> snd q"
  proof
    fix q assume "q \<in> set (take i bs)"
    then obtain j where "j < length (take i bs)" "take i bs ! j = q"
      by (metis in_set_conv_nth)
    then have "j < i" "bs ! j = q" by simp_all
    with i(4) show "\<not> snd q" by blast
  qed
  from assms have "bs \<noteq> []" by auto
  with fp have "idxmax bs = Inr (fst p)"
    by (cases bs) (simp_all add: idxmax_def)
  with bs pre show ?thesis by blast
qed

lemma idxmax_mem: "idxmax bs = Inr u \<Longrightarrow> u \<in> fst ` set bs"
proof (cases "\<exists>p \<in> set bs. snd p")
  case True
  assume "idxmax bs = Inr u"
  with idxmax_first[OF True] show ?thesis by force
next
  case False
  assume a: "idxmax bs = Inr u"
  then have "bs \<noteq> []" by (auto simp: idxmax_def)
  with False a idxmax_none[of bs] show ?thesis by (cases bs) auto
qed

lemma set_sel_units: "set (sel_units dgm velmod) = set (dgm_unit dgm) \<inter> set (velmod_unit velmod)"
  by (simp add: sel_units_def set_intersect1d)

lemma set_velmod_itp_unit:
  "set (velmod_itp_unit dgm velmod) = set (dgm_unit dgm) \<inter> set (velmod_unit velmod)"
  by (simp add: velmod_itp_unit_def set_sortby set_sel_units)

lemma set_dgm_itp_unit:
  "set (dgm_itp_unit dgm velmod) = set (dgm_unit dgm) \<inter> set (velmod_unit velmod)"
  by (simp add: dgm_itp_unit_def set_sortby set_sel_units)

lemma distinct_velmod_itp_unit: "distinct (velmod_itp_unit dgm velmod)"
  by (simp add: velmod_itp_unit_def distinct_sortby sel_units_def distinct_intersect1d)

lemma sorted_dgm_itp_unit: "sorted (map (dgm_ordering dgm) (dgm_itp_unit dgm velmod))"
  by (simp add: dgm_itp_unit_def sorted_sortby)

lemma map_fst_V0_filled_itp: "map fst (V0_filled_itp itp x y dgm velmod st) = velmod_itp_unit dgm velmod"
  by (simp add: V0_filled_itp_def comp_def)

lemma map_fst_tvd_itp: "map fst (tvd_itp itp x y dgm velmod) = dgm_itp_unit dgm velmod"
  by (simp add: tvd_itp_def comp_def)

lemma map_fst_unit_vinst: "map fst (unit_vinst V0 k z) = map fst V0"
  by (simp add: unit_vinst_def comp_def case_prod_beta)

lemma unit_vinst_mem:
  "(u, v) \<in> set V0 \<Longrightarrow> (u, fsub v (fmul (k u) (Fin z))) \<in> set (unit_vinst V0 k z)"
  by (force simp: unit_vinst_def)

lemma unit_at_depth_first:
  assumes "\<exists>p \<in> set tvd. flt (snd p) (Fin z)"
  shows "\<exists>pre u d post. tvd = pre @ (u, d) # post \<and> (\<forall>q \<in> set pre. \<not> flt (snd q) (Fin z))
           \<and> flt d (Fin z) \<and> idxmax (map (\<lambda>(u, d). (u, flt d (Fin z))) tvd) = Inr u"
proof -
  let ?f = "\<lambda>(u, d). (u, flt d (Fin z))"
  from assms have "\<exists>p \<in> set (map ?f tvd). snd p" by force
  from idxmax_first[OF this] obtain pre' u post' where
    m: "map ?f tvd = pre' @ (u, True) # post'" and np: "\<forall>q \<in> set pre'. \<not> snd q"
    and ix: "idxmax (map ?f tvd) = Inr u" by blast
  from m obtain pre p post where t: "tvd = pre @ p # post" and pre: "map ?f pre = pre'"
    and p: "?f p = (u, True)"
    by (auto simp: map_eq_append_conv map_eq_Cons_conv)
  from p have pp: "p = (u, snd p)" "flt (snd p) (Fin z)" by (cases p; simp)+
  have "\<forall>q \<in> set pre. \<not> flt (snd q) (Fin z)"
  proof
    fix q assume "q \<in> set pre"
    then have "?f q \<in> set pre'" using pre by force
    with np have "\<not> snd (?f q)" by blast
    then show "\<not> flt (snd q) (Fin z)" by (cases q) simp
  qed
  with t pp ix show ?thesis by metis
qed

lemma unit_at_depth_none:
  assumes "tvd \<noteq> []" "\<forall>p \<in> set tvd. \<not> flt (snd p) (Fin z)"
  shows "idxmax (map (\<lambda>(u, d). (u, flt d (Fin z))) tvd) = Inr (fst (hd tvd))"
proof -
  let ?f = "\<lambda>(u, d). (u, flt d (Fin z))"
  have "\<forall>p \<in> set (map ?f tvd). \<not> snd p" using assms(2) by force
  with assms(1) have "idxmax (map ?f tvd) = Inr (fst (hd (map ?f tvd)))"
    by (intro idxmax_none) simp_all
  with assms(1) show ?thesis by (cases tvd) (simp_all add: case_prod_beta)
qed

lemma sample_InrD:
  assumes "sample_dgm_velmod itp x y z dgm velmod crs xcrs = Inr r"
  shows "dgm_crs dgm = velmod_crs velmod"
    and "''mean'' \<in> set (velmod_summary_statistic velmod)"
    and "''sd'' \<in> set (velmod_summary_statistic velmod)"
    and "''sk'' \<in> set (velmod_kriging_type velmod)"
    and "''tvd'' \<in> set (dgm_vars dgm)"
    and "z = None \<Longrightarrow> r = map_samples itp x y dgm velmod crs xcrs"
    and "\<And>zz. z = Some zz \<Longrightarrow>
           depth_samples zz (velmod_k velmod) (map_samples itp x y dgm velmod crs xcrs) = Inr r"
  using assms by (auto simp: sample_dgm_velmod_def split: if_splits)

lemma depth_samples_InrD:
  assumes "depth_samples z k smp = Inr r"
  shows "\<exists>u. idxmax (map (\<lambda>(u, d). (u, flt d (Fin z))) (s_depth smp)) = Inr u
           \<and> s_unit_samples r = Some u
           \<and> s_Vinst r = Some (combine u (unit_vinst (s_V0 smp) k z))
           \<and> s_unit_mask r = Some (map (\<lambda>(w, v). (w, w = u)) (unit_vinst (s_V0 smp) k z))
           \<and> s_V0 r = s_V0 smp \<and> s_V0_sd r = s_V0_sd smp \<and> s_k r = s_k smp
           \<and> s_depth r = s_depth smp \<and> s_ordering r = s_ordering smp \<and> s_crs r = s_crs smp"
  using assms by (auto simp: depth_samples_def Let_def split: sum.splits)

lemma sample_fields:
  assumes "sample_dgm_velmod itp x y z dgm velmod crs xcrs = Inr r"
  shows "s_V0 r = V0_filled_itp itp x y dgm velmod ''mean''"
    and "s_V0_sd r = V0_filled_itp itp x y dgm velmod ''sd''"
    and "s_k r = map (\<lambda>u. (u, velmod_k velmod u)) (velmod_itp_unit dgm velmod)"
    and "s_depth r = tvd_itp itp x y dgm velmod"
    and "s_ordering r = map (\<lambda>u. (u, dgm_ordering dgm u)) (dgm_itp_unit dgm velmod)"
proof -
  let ?smp = "map_samples itp x y dgm velmod crs xcrs"
  have "s_V0 r = s_V0 ?smp \<and> s_V0_sd r = s_V0_sd ?smp \<and> s_k r = s_k ?smp
        \<and> s_depth r = s_depth ?smp \<and> s_ordering r = s_ordering ?smp"
  proof (cases z)
    case None
    with sample_InrD(6)[OF assms] show ?thesis by simp
  next
    case (Some zz)
    from depth_samples_InrD[OF sample_InrD(7)[OF assms Some]] show ?thesis by auto
  qed
  then show "s_V0 r = V0_filled_itp itp x y dgm velmod ''mean''"
    and "s_V0_sd r = V0_filled_itp itp x y dgm velmod ''sd''"
    and "s_k r = map (\<lambda>u. (u, velmod_k velmod u)) (velmod_itp_unit dgm velmod)"
    and "s_depth r = tvd_itp itp x y dgm velmod"
    and "s_ordering r = map (\<lambda>u. (u, dgm_ordering dgm u)) (dgm_itp_unit dgm velmod)"
    by (simp_all add: map_samples_def)
qed

lemma sample_depth_fields:
  assumes "sample_dgm_velmod itp x y (Some z) dgm velmod crs xcrs = Inr r"
  shows "\<exists>u. idxmax (map (\<lambda>(u, d). (u, flt d (Fin z))) (s_depth r)) = Inr u
           \<and> s_unit_samples r = Some u
           \<and> s_Vinst r = Some (combine u (unit_vinst (s_V0 r) (velmod_k velmod) z))
           \<and> s_unit_mask r = Some (map (\<lambda>(w, v). (w, w = u)) (unit_vinst (s_V0 r) (velmod_k velmod) z))"
  using depth_samples_InrD[OF sample_InrD(7)[OF assms refl]] by auto

lemma sample_succeeds:
  assumes "dgm_crs dgm = velmod_crs velmod"
    and "''mean'' \<in> set (velmod_summary_statistic velmod)"
    and "''sd'' \<in> set (velmod_summary_statistic velmod)"
    and "''sk'' \<in> set (velmod_kriging_type velmod)"
    and "''tvd'' \<in> set (dgm_vars dgm)"
    and "z \<noteq> None \<longrightarrow> set (dgm_unit dgm) \<inter> set (velmod_unit velmod) \<noteq> {}"
  shows "\<exists>r. sample_dgm_velmod itp x y z dgm velmod crs xcrs = Inr r"
proof (cases z)
  case None
  with assms show ?thesis by (simp add: sample_dgm_velmod_def)
next
  case (Some zz)
  let ?smp = "map_samples itp x y dgm velmod crs xcrs"
  from Some assms(6) have "dgm_itp_unit dgm velmod \<noteq> []"
    using set_dgm_itp_unit[of dgm velmod] by auto
  then have "s_depth ?smp \<noteq> []" by (simp add: map_samples_def tvd_itp_def)
  then have "\<not> (\<exists>e. idxmax (map (\<lambda>(u, d). (u, flt d (Fin zz))) (s_depth ?smp)) = Inl e)"
    by (simp add: idxmax_Nil_iff)
  then obtain u where "idxmax (map (\<lambda>(u, d). (u, flt d (Fin zz))) (s_depth ?smp)) = Inr u"
    by (cases "idxmax (map (\<lambda>(u, d). (u, flt d (Fin zz))) (s_depth ?smp))") auto
  then have "\<exists>r. depth_samples zz (velmod_k velmod) ?smp = Inr r"
    by (simp add: depth_samples_def Let_def)
  with Some assms show ?thesis by (simp add: sample_dgm_velmod_def)
qed

lemma vinst_of_active:
  assumes "sample_dgm_velmod itp x y (Some z) dgm velmod crs xcrs = Inr r"
    and "s_unit_samples r = Some u" "(u, v0) \<in> set (s_V0 r)" "(u, kk) \<in> set (s_k r)"
  shows "s_Vinst r = Some (if fsub v0 (fmul kk (Fin z)) = NaN then Fin 0
                            else fsub v0 (fmul kk (Fin z)))"
proof -
  let ?uv = "unit_vinst (s_V0 r) (velmod_k velmod) z"
  from sample_depth_fields[OF assms(1)] assms(2)
  have vi: "s_Vinst r = Some (combine u ?uv)" by auto
  from assms(4) have k: "velmod_k velmod u = kk"
    by (auto simp: sample_fields(3)[OF assms(1)])
  have "map fst ?uv = velmod_itp_unit dgm velmod"
    by (simp add: map_fst_unit_vinst sample_fields(1)[OF assms(1)] map_fst_V0_filled_itp)
  then have dist: "distinct (map fst ?uv)"
    by (simp add: distinct_velmod_itp_unit)
  from unit_vinst_mem[OF assms(3), of "velmod_k velmod" z] k
  have "(u, fsub v0 (fmul kk (Fin z))) \<in> set ?uv" by simp
  from combine_distinct[OF dist this] vi show ?thesis by simp
qed

lemma active_unit_sampled:
  assumes "sample_dgm_velmod itp x y (Some z) dgm velmod crs xcrs = Inr r"
    and "s_unit_samples r = Some u"
  shows "\<exists>v0 kk. (u, v0) \<in> set (s_V0 r) \<and> (u, kk) \<in> set (s_k r)"
proof -
  from sample_depth_fields[OF assms(1)] assms(2)
  have "idxmax (map (\<lambda>(u, d). (u, flt d (Fin z))) (s_depth r)) = Inr u" by auto
  from idxmax_mem[OF this] have "u \<in> fst ` set (s_depth r)" by force
  then have "u \<in> set (dgm_itp_unit dgm velmod)"
    using map_fst_tvd_itp[of itp x y dgm velmod] sample_fields(4)[OF assms(1)]
    by (metis set_map)
  then have u: "u \<in> set (velmod_itp_unit dgm velmod)"
    by (simp add: set_dgm_itp_unit set_velmod_itp_unit)
  then show ?thesis
    by (force simp: sample_fields(1,3)[OF assms(1)] V0_filled_itp_def)
qed

lemma ordering_loop_Inr:
  "ordering_loop us ord = Inr ord' \<Longrightarrow>
     (\<forall>u \<in> set us. map_option int (index_of unit_canonical_order u) = Some (ord' u))
     \<and> (\<forall>u. u \<notin> set us \<longrightarrow> ord' u = ord u)"
proof (induction us arbitrary: ord)
  case Nil
  then show ?case by simp
next
  case (Cons a us)
  from Cons.prems obtain i where i: "index_of unit_canonical_order a = Some i"
    and rest: "ordering_loop us (ord(a := int i)) = Inr ord'"
    by (auto split: option.splits)
  from Cons.IH[OF rest] have
    ih1: "\<forall>u \<in> set us. map_option int (index_of unit_canonical_order u) = Some (ord' u)"
    and ih2: "\<forall>u. u \<notin> set us \<longrightarrow> ord' u = (ord(a := int i)) u" by blast+
  have "map_option int (index_of unit_canonical_order a) = Some (ord' a)"
  proof (cases "a \<in> set us")
    case True
    with ih1 show ?thesis by blast
  next
    case False
    with ih2 have "ord' a = int i" by simp
    with i show ?thesis by simp
  qed
  with ih1 ih2 show ?case by auto
qed

lemma index_of_Some:
  "index_of xs u = Some i \<Longrightarrow> i < length xs \<and> xs ! i = u \<and> (\<forall>j < i. xs ! j \<noteq> u)"
proof (induction xs arbitrary: i)
  case Nil
  then show ?case by simp
next
  case (Cons a xs)
  show ?case
  proof (cases "a = u")
    case True
    with Cons.prems show ?thesis by simp
  next
    case False
    with Cons.prems obtain k where k: "index_of xs u = Some k" "i = Suc k" by auto
    from Cons.IH[OF k(1)] have "k < length xs" "xs ! k = u" "\<forall>j < k. xs ! j \<noteq> u" by blast+
    with k(2) False show ?thesis by (auto simp: nth_Cons split: nat.splits)
  qed
qed

lemma canonical_index:
  assumes "map_option int (index_of unit_canonical_order u) = Some ord"
  shows "0 \<le> ord \<and> nat ord < length unit_canonical_order \<and> unit_canonical_order ! nat ord = u"
proof -
  from assms obtain i where i: "index_of unit_canonical_order u = Some i" "ord = int i" by auto
  from index_of_Some[OF i(1)] i(2) show ?thesis by simp
qed

lemma ex_sample_150:
  "sample_dgm_velmod interp_linear (1 / 2) (1 / 2) (Some (- 150)) ex_dgm ex_velmod None None
     = Inr ex_samples_150"
  by code_simp

lemma ex_sample_250:
  "sample_dgm_velmod interp_linear (1 / 2) (1 / 2) (Some (- 250)) ex_dgm ex_velmod None None
     = Inr ex_samples_250"
  by code_simp

lemma convert_velmod_InrD:
  assumes "convert_velmod r = Inr m"
  shows "\<exists>ord. ordering_loop (vr_unit r) (\<lambda>_. 0) = Inr ord \<and> ''ZE'' \<in> set (vr_unit r)
          \<and> velmod_ordering m = ord \<and> velmod_unit m = sortby ord (vr_unit r)
          \<and> velmod_V0 m = (vr_V0 r)(''ZE'' := vr_Vint r ''ZE'')
          \<and> velmod_V0_filled m = fill_by_mean (vr_x r) (vr_y r) (velmod_V0 m)
          \<and> velmod_x m = vr_x r \<and> velmod_y m = vr_y r"
proof (cases "ordering_loop (vr_unit r) (\<lambda>_. 0)")
  case (Inl e)
  with assms show ?thesis by (simp add: convert_velmod_def)
next
  case (Inr ord)
  show ?thesis
  proof (cases "''ZE'' \<in> set (vr_unit r)")
    case False
    with assms Inr show ?thesis by (simp add: convert_velmod_def)
  next
    case True
    with assms Inr have
      "m = \<lparr> velmod_crs = vr_crs r, velmod_unit = sortby ord (vr_unit r),
             velmod_x = vr_x r, velmod_y = vr_y r,
             velmod_kriging_type = vr_kriging_type r,
             velmod_summary_statistic = vr_summary_statistic r,
             velmod_V0 = (vr_V0 r)(''ZE'' := vr_Vint r ''ZE''),
             velmod_Vint = vr_Vint r,
             velmod_V0_filled = fill_by_mean (vr_x r) (vr_y r) ((vr_V0 r)(''ZE'' := vr_Vint r ''ZE'')),
             velmod_k = vr_k r, velmod_ordering = ord \<rparr>"
      by (simp add: convert_velmod_def Let_def)
    with Inr True show ?thesis by simp
  qed
qed

lemma convert_velmod_success:
  "(\<exists>m. convert_velmod r = Inr m) \<longleftrightarrow>
     (\<exists>ord. ordering_loop (vr_unit r) (\<lambda>_. 0) = Inr ord) \<and> ''ZE'' \<in> set (vr_unit r)"
  by (auto simp: convert_velmod_def Let_def split: sum.splits)

lemma convert_dgm_InrD:
  assumes "convert_dgm dgmds = Inr d"
  shows "\<exists>d0 rest ord. dgmds = d0 # rest
          \<and> distinct (map (\<lambda>d. (z_unit d, z_var d)) (dgmds @ [last_entry d0]))
          \<and> ordering_loop (sort (remdups (map z_unit (dgmds @ [last_entry d0])))) (\<lambda>_. 0) = Inr ord
          \<and> dgm_ordering d = ord
          \<and> dgm_unit d = sortby ord (sort (remdups (map z_unit (dgmds @ [last_entry d0]))))
          \<and> dgm_data d = stacked (dgmds @ [last_entry d0])
          \<and> dgm_vars d = sort (remdups (map z_var (dgmds @ [last_entry d0])))
          \<and> dgm_x d = dropna_x (dgmds @ [last_entry d0]) (dgm_vars d)
                         (sort (remdups (map z_unit (dgmds @ [last_entry d0]))))
                         (union_axis (map z_x (dgmds @ [last_entry d0])))
                         (union_axis (map z_y (dgmds @ [last_entry d0])))
          \<and> dgm_y d = dropna_y (dgmds @ [last_entry d0]) (dgm_vars d)
                         (sort (remdups (map z_unit (dgmds @ [last_entry d0]))))
                         (dgm_x d)
                         (union_axis (map z_y (dgmds @ [last_entry d0])))"
proof (cases dgmds)
  case Nil
  with assms show ?thesis by (simp add: convert_dgm_def)
next
  case (Cons d0 rest)
  let ?ds = "dgmds @ [last_entry d0]"
  from assms Cons obtain xr where xr: "concat_unstack (z_crs d0) ?ds = Inr xr"
    by (cases "concat_unstack (z_crs d0) ?ds") (simp_all add: convert_dgm_def)
  from assms Cons xr obtain ord where ord: "ordering_loop (dr_unit xr) (\<lambda>_. 0) = Inr ord"
    by (cases "ordering_loop (dr_unit xr) (\<lambda>_. 0)") (simp_all add: convert_dgm_def)
  from assms Cons xr ord have d: "d = \<lparr> dgm_crs = dr_crs xr,
                          dgm_unit = sortby ord (dr_unit xr),
                          dgm_x = dr_x xr, dgm_y = dr_y xr,
                          dgm_vars = dr_vars xr,
                          dgm_data = dr_data xr,
                          dgm_ordering = ord \<rparr>"
    by (simp add: convert_dgm_def)
  from xr have dist: "distinct (map (\<lambda>d. (z_unit d, z_var d)) ?ds)"
    by (simp add: concat_unstack_def split: if_splits)
  with xr have "xr = \<lparr> dr_crs = z_crs d0, dr_unit = sort (remdups (map z_unit ?ds)),
       dr_x = dropna_x ?ds (sort (remdups (map z_var ?ds))) (sort (remdups (map z_unit ?ds)))
                (union_axis (map z_x ?ds)) (union_axis (map z_y ?ds)),
       dr_y = dropna_y ?ds (sort (remdups (map z_var ?ds))) (sort (remdups (map z_unit ?ds)))
                (dropna_x ?ds (sort (remdups (map z_var ?ds))) (sort (remdups (map z_unit ?ds)))
                   (union_axis (map z_x ?ds)) (union_axis (map z_y ?ds)))
                (union_axis (map z_y ?ds)),
       dr_vars = sort (remdups (map z_var ?ds)), dr_data = stacked ?ds \<rparr>"
    by (simp add: concat_unstack_def Let_def)
  with d ord dist Cons show ?thesis by simp
qed

lemma nansum_finite: "filter (\<lambda>v. v \<noteq> NaN) vs = map Fin rs \<Longrightarrow> nansum vs = Fin (sum_list rs)"
proof (induction vs arbitrary: rs)
  case Nil
  then show ?case by simp
next
  case (Cons v vs)
  show ?case
  proof (cases "v = NaN")
    case True
    with Cons show ?thesis by (simp add: fadd_zero_left)
  next
    case False
    with Cons.prems obtain r rs' where rs: "rs = r # rs'" "v = Fin r"
      "filter (\<lambda>v. v \<noteq> NaN) vs = map Fin rs'" by (cases rs) auto
    with Cons.IH[OF rs(3)] show ?thesis by simp
  qed
qed

lemma nanmean_finite:
  assumes "filter (\<lambda>v. v \<noteq> NaN) vs = map Fin rs" "rs \<noteq> []"
  shows "nanmean vs = Fin (sum_list rs / real (length rs))"
proof -
  have len: "length (filter (\<lambda>v. v \<noteq> NaN) vs) = length rs" using assms(1) by simp
  from assms(2) obtain n where n: "length rs = Suc n" by (cases rs) auto
  show ?thesis unfolding nanmean_def len nansum_finite[OF assms(1)] n by simp
qed

lemma nanmean_all_nan: "\<forall>v \<in> set vs. v = NaN \<Longrightarrow> nanmean vs = NaN"
proof -
  assume "\<forall>v \<in> set vs. v = NaN"
  then have "filter (\<lambda>v. v \<noteq> NaN) vs = []" by (simp add: filter_empty_conv)
  then show ?thesis by (simp add: nanmean_def)
qed

lemma cell_in_cells: "x \<in> set xs \<Longrightarrow> y \<in> set ys \<Longrightarrow> f x y \<in> set (cells xs ys f)"
  by (auto simp: cells_def)

lemma V0_filled_cell:
  assumes "convert_velmod r = Inr m"
  shows "velmod_V0_filled m u kt st x y =
           (if velmod_V0 m u kt st x y = NaN
            then nanmean (cells (velmod_x m) (velmod_y m) (velmod_V0 m u kt st))
            else velmod_V0 m u kt st x y)"
  using convert_velmod_InrD[OF assms] by (auto simp: fill_by_mean_def fillna_def)

lemma ordering_loop_canonical:
  assumes "ordering_loop us ord = Inr ord'"
  shows "\<forall>u \<in> set us. 0 \<le> ord' u \<and> nat (ord' u) < length unit_canonical_order
           \<and> unit_canonical_order ! nat (ord' u) = u"
proof
  fix u assume "u \<in> set us"
  with ordering_loop_Inr[OF assms]
  have "map_option int (index_of unit_canonical_order u) = Some (ord' u)" by blast
  then show "0 \<le> ord' u \<and> nat (ord' u) < length unit_canonical_order
           \<and> unit_canonical_order ! nat (ord' u) = u"
    by (rule canonical_index)
qed

lemma count_list_insort_key:
  "count_list (insort_key f x xs) y = count_list (x # xs) y"
  by (induction xs) auto

lemma count_list_sortby: "count_list (sortby key us) u = count_list us u"
  unfolding sortby_def sort_key_def
  by (induction us) (simp_all add: count_list_insort_key)





lemma ex_dgm_converted: "convert_dgm ex_dgmds = Inr ex_dgm"
proof -
  have "\<not> isl (convert_dgm ex_dgmds)" by code_simp
  then show ?thesis unfolding ex_dgm_def by simp
qed

lemma ex_velmod_converted:
  "convert_velmod (ex_velmodxrds [''ZE'', ''NU'', ''N'', ''DC'']) = Inr ex_velmod"
proof -
  have "\<not> isl (convert_velmod (ex_velmodxrds [''ZE'', ''NU'', ''N'', ''DC'']))" by code_simp
  then show ?thesis unfolding ex_velmod_def by simp
qed










lemma ex_sample_node:
  "sample_dgm_velmod interp_linear 0 0 None ex_dgm ex_velmod None None = Inr ex_samples_node"
  by code_simp




section \<open>The claims\<close>

subsection \<open>CRS precondition\<close>

text \<open>
  Claim C5. When the CRS tags of the DGM and the VELMOD models differ, sampling fails with the
  assertion error, whatever the interpolator, the query, the depth and the rest of the two
  models are: no unit is selected, nothing is interpolated, no result is produced and nothing
  is reprojected. The failure precedes every other failure of the sampler (a missing
  statistic, a missing variable, an empty unit axis).
\<close>

theorem crs_mismatch_fails:
  "dgm_crs dgm \<noteq> velmod_crs velmod \<Longrightarrow>
     sample_dgm_velmod itp x y z dgm velmod crs xcrs = Inl AssertionError"
  by (simp add: sample_dgm_velmod_def)

theorem crs_mismatch_fails_witness:
  "dgm_crs (ex_dgm \<lparr> dgm_crs := Some ''epsg:28992'' \<rparr>) \<noteq> velmod_crs ex_velmod
   \<and> sample_dgm_velmod interp_linear (1 / 2) (1 / 2) (Some (- 150))
        (ex_dgm \<lparr> dgm_crs := Some ''epsg:28992'' \<rparr>) ex_velmod None None = Inl AssertionError"
proof -
  have h: "dgm_crs (ex_dgm \<lparr> dgm_crs := Some ''epsg:28992'' \<rparr>) \<noteq> velmod_crs ex_velmod"
    by code_simp
  show ?thesis by (rule conjI[OF h crs_mismatch_fails[OF h]])
qed

subsection \<open>The active unit\<close>

text \<open>
  Claim C1, as amended. The source compares \<open>tvd < z\<close>: with depths negative downwards, the
  active unit is the first unit, scanning the interpolated base depths in the order of the
  ordering variable, whose base lies strictly below \<open>z\<close> (\<open>base < z\<close>), provided some unit has
  such a base. The claim states the opposite comparison (\<open>base > z\<close>).
\<close>

theorem active_unit_first_below:
  assumes "sample_dgm_velmod itp x y (Some z) dgm velmod crs xcrs = Inr r"
    and "\<exists>p \<in> set (s_depth r). flt (snd p) (Fin z)"
  shows "s_depth r = tvd_itp itp x y dgm velmod
       \<and> sorted (map (dgm_ordering dgm) (map fst (s_depth r)))
       \<and> (\<exists>pre u d post. s_depth r = pre @ (u, d) # post
             \<and> (\<forall>q \<in> set pre. \<not> flt (snd q) (Fin z))
             \<and> flt d (Fin z)
             \<and> s_unit_samples r = Some u)"
proof -
  have d: "s_depth r = tvd_itp itp x y dgm velmod"
    by (rule sample_fields(4)[OF assms(1)])
  have s: "sorted (map (dgm_ordering dgm) (map fst (s_depth r)))"
    by (simp only: d map_fst_tvd_itp sorted_dgm_itp_unit)
  from sample_depth_fields[OF assms(1)] obtain u' where
    u': "idxmax (map (\<lambda>(u, d). (u, flt d (Fin z))) (s_depth r)) = Inr u'"
        "s_unit_samples r = Some u'" by blast
  from unit_at_depth_first[OF assms(2)] u' have
    "\<exists>pre u d post. s_depth r = pre @ (u, d) # post
             \<and> (\<forall>q \<in> set pre. \<not> flt (snd q) (Fin z))
             \<and> flt d (Fin z)
             \<and> s_unit_samples r = Some u"
    by fastforce
  with d s show ?thesis by blast
qed

theorem active_unit_first_below_witness:
  "sample_dgm_velmod interp_linear (1 / 2) (1 / 2) (Some (- 150)) ex_dgm ex_velmod None None
     = Inr ex_samples_150
   \<and> (\<exists>p \<in> set (s_depth ex_samples_150). flt (snd p) (Fin (- 150)))
   \<and> (\<exists>pre u d post. s_depth ex_samples_150 = pre @ (u, d) # post
         \<and> (\<forall>q \<in> set pre. \<not> flt (snd q) (Fin (- 150)))
         \<and> flt d (Fin (- 150))
         \<and> s_unit_samples ex_samples_150 = Some u)"
proof -
  have h2: "\<exists>p \<in> set (s_depth ex_samples_150). flt (snd p) (Fin (- 150))"
    by code_simp
  from active_unit_first_below[OF ex_sample_150 h2] ex_sample_150 h2 show ?thesis
    by blast
qed

text \<open>
  The claim as stated fails: with bases \<open>-100\<close> (N), \<open>-200\<close> (NU) and \<open>-inf\<close> (DC) and
  \<open>z = -150\<close>, the sampler returns NU, the first unit with \<open>base < z\<close>, while the first unit
  with \<open>base > z\<close> is N.
\<close>

theorem active_unit_not_first_above:
  "sample_dgm_velmod interp_linear (1 / 2) (1 / 2) (Some (- 150)) ex_dgm ex_velmod None None
     = Inr ex_samples_150
   \<and> s_unit_samples ex_samples_150 = Some ''NU''
   \<and> spec_unit_at_depth (- 150) (s_depth ex_samples_150) = Some ''N''"
  by code_simp

text \<open>
  Claim C9. When no common unit has an interpolated base below \<open>z\<close> (the comparison is false
  on the whole unit axis), sampling still succeeds and the active unit is the first label of
  the unit axis sorted on the ordering variable: the common unit with the least ordering
  value, that is the topmost one.
\<close>

theorem no_unit_below_gives_first:
  assumes "dgm_crs dgm = velmod_crs velmod"
    and "''mean'' \<in> set (velmod_summary_statistic velmod)"
    and "''sd'' \<in> set (velmod_summary_statistic velmod)"
    and "''sk'' \<in> set (velmod_kriging_type velmod)"
    and "''tvd'' \<in> set (dgm_vars dgm)"
    and "set (dgm_unit dgm) \<inter> set (velmod_unit velmod) \<noteq> {}"
    and "\<forall>u \<in> set (dgm_unit dgm) \<inter> set (velmod_unit velmod).
           \<not> flt (itp (dgm_x dgm) (dgm_y dgm) (dgm_data dgm ''tvd'' u) x y) (Fin z)"
  shows "\<exists>r. sample_dgm_velmod itp x y (Some z) dgm velmod crs xcrs = Inr r
           \<and> map fst (s_depth r) = sortby (dgm_ordering dgm) (sel_units dgm velmod)
           \<and> s_unit_samples r = Some (hd (map fst (s_depth r)))
           \<and> (\<forall>w \<in> set (dgm_unit dgm) \<inter> set (velmod_unit velmod).
                 dgm_ordering dgm (hd (map fst (s_depth r))) \<le> dgm_ordering dgm w)"
proof -
  from sample_succeeds[OF assms(1-5), of "Some z" itp x y crs xcrs] assms(6)
  obtain r where r: "sample_dgm_velmod itp x y (Some z) dgm velmod crs xcrs = Inr r" by auto
  have d: "s_depth r = tvd_itp itp x y dgm velmod" by (rule sample_fields(4)[OF r])
  have mf: "map fst (s_depth r) = dgm_itp_unit dgm velmod"
    by (simp only: d map_fst_tvd_itp)
  from assms(6) have ne: "dgm_itp_unit dgm velmod \<noteq> []"
    using set_dgm_itp_unit[of dgm velmod] by auto
  with mf have ne': "s_depth r \<noteq> []" by auto
  have "\<forall>p \<in> set (s_depth r). \<not> flt (snd p) (Fin z)"
    using assms(7) by (auto simp: d tvd_itp_def set_dgm_itp_unit)
  from unit_at_depth_none[OF ne' this] sample_depth_fields[OF r]
  have us: "s_unit_samples r = Some (hd (map fst (s_depth r)))"
    using ne' by (auto simp: hd_map)
  have "\<forall>w \<in> set (dgm_itp_unit dgm velmod).
          dgm_ordering dgm (hd (dgm_itp_unit dgm velmod)) \<le> dgm_ordering dgm w"
    using sorted_dgm_itp_unit[of dgm velmod] ne
    by (cases "dgm_itp_unit dgm velmod") auto
  then have "\<forall>w \<in> set (dgm_unit dgm) \<inter> set (velmod_unit velmod).
                 dgm_ordering dgm (hd (map fst (s_depth r))) \<le> dgm_ordering dgm w"
    by (simp only: mf set_dgm_itp_unit)
  with r mf us show ?thesis by (auto simp: dgm_itp_unit_def)
qed

theorem no_unit_below_gives_first_witness:
  "dgm_crs ex_dgm = velmod_crs ex_velmod_no_dc
   \<and> ''mean'' \<in> set (velmod_summary_statistic ex_velmod_no_dc)
   \<and> ''sd'' \<in> set (velmod_summary_statistic ex_velmod_no_dc)
   \<and> ''sk'' \<in> set (velmod_kriging_type ex_velmod_no_dc)
   \<and> ''tvd'' \<in> set (dgm_vars ex_dgm)
   \<and> set (dgm_unit ex_dgm) \<inter> set (velmod_unit ex_velmod_no_dc) \<noteq> {}
   \<and> list_all (\<lambda>u.
         \<not> flt (interp_linear (dgm_x ex_dgm) (dgm_y ex_dgm) (dgm_data ex_dgm ''tvd'' u) (1 / 2) (1 / 2))
               (Fin (- 250))) (sel_units ex_dgm ex_velmod_no_dc)
   \<and> (\<exists>r. sample_dgm_velmod interp_linear (1 / 2) (1 / 2) (Some (- 250)) ex_dgm ex_velmod_no_dc
              None None = Inr r
         \<and> map fst (s_depth r) = sortby (dgm_ordering ex_dgm) (sel_units ex_dgm ex_velmod_no_dc)
         \<and> s_unit_samples r = Some (hd (map fst (s_depth r)))
         \<and> (\<forall>w \<in> set (dgm_unit ex_dgm) \<inter> set (velmod_unit ex_velmod_no_dc).
               dgm_ordering ex_dgm (hd (map fst (s_depth r))) \<le> dgm_ordering ex_dgm w))"
proof -
  have h1: "dgm_crs ex_dgm = velmod_crs ex_velmod_no_dc" by code_simp
  have h2: "''mean'' \<in> set (velmod_summary_statistic ex_velmod_no_dc)" by code_simp
  have h3: "''sd'' \<in> set (velmod_summary_statistic ex_velmod_no_dc)" by code_simp
  have h4: "''sk'' \<in> set (velmod_kriging_type ex_velmod_no_dc)" by code_simp
  have h5: "''tvd'' \<in> set (dgm_vars ex_dgm)" by code_simp
  have h6: "set (dgm_unit ex_dgm) \<inter> set (velmod_unit ex_velmod_no_dc) \<noteq> {}" by code_simp
  have l7: "list_all (\<lambda>u.
         \<not> flt (interp_linear (dgm_x ex_dgm) (dgm_y ex_dgm) (dgm_data ex_dgm ''tvd'' u) (1 / 2) (1 / 2))
               (Fin (- 250))) (sel_units ex_dgm ex_velmod_no_dc)" by code_simp
  then have h7: "\<forall>u \<in> set (dgm_unit ex_dgm) \<inter> set (velmod_unit ex_velmod_no_dc).
         \<not> flt (interp_linear (dgm_x ex_dgm) (dgm_y ex_dgm) (dgm_data ex_dgm ''tvd'' u) (1 / 2) (1 / 2))
               (Fin (- 250))"
    by (simp only: list_all_iff set_sel_units)
  from no_unit_below_gives_first[where itp = interp_linear and x = "1 / 2" and y = "1 / 2"
      and z = "- 250" and dgm = ex_dgm and velmod = ex_velmod_no_dc and crs = None and xcrs = None,
      OF h1 h2 h3 h4 h5 h6 h7] h1 h2 h3 h4 h5 h6 l7
  show ?thesis by (intro conjI)
qed

subsection \<open>The combined velocity\<close>

text \<open>
  Claim C2. When the sampled intercept \<open>V0\<close> and the slope \<open>k\<close> of the active unit are
  numbers \<open>v0\<close> and \<open>kk\<close>, the combined instantaneous velocity is exactly \<open>v0 - kk * z\<close>:
  the masked sum adds zeros only.
\<close>

theorem combined_vinst_exact:
  assumes "sample_dgm_velmod itp x y (Some z) dgm velmod crs xcrs = Inr r"
    and "s_unit_samples r = Some u"
    and "(u, Fin v0) \<in> set (s_V0 r)"
    and "(u, Fin kk) \<in> set (s_k r)"
  shows "s_Vinst r = Some (Fin (v0 - kk * z))"
  using vinst_of_active[OF assms] by (simp add: fsub_def)

theorem combined_vinst_exact_witness:
  "sample_dgm_velmod interp_linear (1 / 2) (1 / 2) (Some (- 150)) ex_dgm ex_velmod None None
     = Inr ex_samples_150
   \<and> s_unit_samples ex_samples_150 = Some ''NU''
   \<and> (''NU'', Fin 1800) \<in> set (s_V0 ex_samples_150)
   \<and> (''NU'', Fin (1 / 4)) \<in> set (s_k ex_samples_150)
   \<and> s_Vinst ex_samples_150 = Some (Fin (1800 - 1 / 4 * (- 150)))"
proof -
  have h2: "s_unit_samples ex_samples_150 = Some ''NU''" by code_simp
  have h3: "(''NU'', Fin 1800) \<in> set (s_V0 ex_samples_150)" by code_simp
  have h4: "(''NU'', Fin (1 / 4)) \<in> set (s_k ex_samples_150)" by code_simp
  from combined_vinst_exact[OF ex_sample_150 h2 h3 h4] ex_sample_150 h2 h3 h4
  show ?thesis by blast
qed

text \<open>
  Claim C4. The combined velocity is the sum, skipping no-data, of the per-unit velocities in
  which every unit but the active one is replaced by zero. It is therefore the velocity of
  the active unit alone, whatever the other units hold (no-data included), and it is zero,
  neither an error nor no-data, when the velocity of the active unit is itself no-data.
\<close>

theorem inactive_units_masked:
  assumes "sample_dgm_velmod itp x y (Some z) dgm velmod crs xcrs = Inr r"
  shows "\<exists>u v0 kk. s_unit_samples r = Some u \<and> (u, v0) \<in> set (s_V0 r) \<and> (u, kk) \<in> set (s_k r)
           \<and> s_Vinst r = Some (nansum (map (\<lambda>(w, v). if w = u then v else Fin 0)
                                        (unit_vinst (s_V0 r) (velmod_k velmod) z)))
           \<and> s_Vinst r = Some (if fsub v0 (fmul kk (Fin z)) = NaN then Fin 0
                                else fsub v0 (fmul kk (Fin z)))"
proof -
  from sample_depth_fields[OF assms] obtain u where
    u: "s_unit_samples r = Some u"
       "s_Vinst r = Some (combine u (unit_vinst (s_V0 r) (velmod_k velmod) z))" by blast
  from active_unit_sampled[OF assms u(1)] obtain v0 kk where
    m: "(u, v0) \<in> set (s_V0 r)" "(u, kk) \<in> set (s_k r)" by blast
  from vinst_of_active[OF assms u(1) m] u m show ?thesis
    unfolding combine_def by blast
qed

theorem inactive_units_masked_witness:
  "sample_dgm_velmod interp_linear (1 / 2) (1 / 2) (Some (- 250)) ex_dgm ex_velmod None None
     = Inr ex_samples_250
   \<and> (\<exists>u v0 kk. s_unit_samples ex_samples_250 = Some u
         \<and> (u, v0) \<in> set (s_V0 ex_samples_250) \<and> (u, kk) \<in> set (s_k ex_samples_250)
         \<and> s_Vinst ex_samples_250
             = Some (nansum (map (\<lambda>(w, v). if w = u then v else Fin 0)
                              (unit_vinst (s_V0 ex_samples_250) (velmod_k ex_velmod) (- 250))))
         \<and> s_Vinst ex_samples_250
             = Some (if fsub v0 (fmul kk (Fin (- 250))) = NaN then Fin 0
                     else fsub v0 (fmul kk (Fin (- 250)))))"
  using inactive_units_masked[OF ex_sample_250] ex_sample_250 by (intro conjI)

subsection \<open>The units of a sample\<close>

text \<open>
  Claim C6, as amended. Sampling works on the intersection of the unit axes of the two models,
  provided that the two models share a unit when a depth is given: when the CRS tags agree and
  the statistics, the kriging type and the depth variable are present, sampling then succeeds
  and the units of every variable of the result are exactly the units present in both models.
  A unit present in one model only is absent from the result and raises nothing.
\<close>

theorem sampling_on_intersection:
  assumes "dgm_crs dgm = velmod_crs velmod"
    and "''mean'' \<in> set (velmod_summary_statistic velmod)"
    and "''sd'' \<in> set (velmod_summary_statistic velmod)"
    and "''sk'' \<in> set (velmod_kriging_type velmod)"
    and "''tvd'' \<in> set (dgm_vars dgm)"
    and "z \<noteq> None \<longrightarrow> set (dgm_unit dgm) \<inter> set (velmod_unit velmod) \<noteq> {}"
  shows "\<exists>r. sample_dgm_velmod itp x y z dgm velmod crs xcrs = Inr r
           \<and> fst ` set (s_V0 r) = set (dgm_unit dgm) \<inter> set (velmod_unit velmod)
           \<and> fst ` set (s_V0_sd r) = set (dgm_unit dgm) \<inter> set (velmod_unit velmod)
           \<and> fst ` set (s_k r) = set (dgm_unit dgm) \<inter> set (velmod_unit velmod)
           \<and> fst ` set (s_depth r) = set (dgm_unit dgm) \<inter> set (velmod_unit velmod)
           \<and> fst ` set (s_ordering r) = set (dgm_unit dgm) \<inter> set (velmod_unit velmod)"
proof -
  from sample_succeeds[OF assms] obtain r where
    r: "sample_dgm_velmod itp x y z dgm velmod crs xcrs = Inr r" by blast
  have "set (map fst (s_V0 r)) = set (dgm_unit dgm) \<inter> set (velmod_unit velmod)"
    by (simp only: sample_fields(1)[OF r] map_fst_V0_filled_itp set_velmod_itp_unit)
  moreover have "set (map fst (s_V0_sd r)) = set (dgm_unit dgm) \<inter> set (velmod_unit velmod)"
    by (simp only: sample_fields(2)[OF r] map_fst_V0_filled_itp set_velmod_itp_unit)
  moreover have "set (map fst (s_k r)) = set (dgm_unit dgm) \<inter> set (velmod_unit velmod)"
    by (simp add: sample_fields(3)[OF r] comp_def set_velmod_itp_unit)
  moreover have "set (map fst (s_depth r)) = set (dgm_unit dgm) \<inter> set (velmod_unit velmod)"
    by (simp only: sample_fields(4)[OF r] map_fst_tvd_itp set_dgm_itp_unit)
  moreover have "set (map fst (s_ordering r)) = set (dgm_unit dgm) \<inter> set (velmod_unit velmod)"
    by (simp add: sample_fields(5)[OF r] comp_def set_dgm_itp_unit)
  ultimately show ?thesis using r by (simp only: set_map) blast
qed

theorem sampling_on_intersection_witness:
  "dgm_crs ex_dgm = velmod_crs ex_velmod_no_dc
   \<and> ''mean'' \<in> set (velmod_summary_statistic ex_velmod_no_dc)
   \<and> ''sd'' \<in> set (velmod_summary_statistic ex_velmod_no_dc)
   \<and> ''sk'' \<in> set (velmod_kriging_type ex_velmod_no_dc)
   \<and> ''tvd'' \<in> set (dgm_vars ex_dgm)
   \<and> set (dgm_unit ex_dgm) \<inter> set (velmod_unit ex_velmod_no_dc) \<noteq> {}
   \<and> ''DC'' \<in> set (dgm_unit ex_dgm) \<and> ''DC'' \<notin> set (velmod_unit ex_velmod_no_dc)
   \<and> ''ZE'' \<notin> set (dgm_unit ex_dgm) \<and> ''ZE'' \<in> set (velmod_unit ex_velmod_no_dc)
   \<and> (\<exists>r. sample_dgm_velmod interp_linear (1 / 2) (1 / 2) (Some (- 150)) ex_dgm ex_velmod_no_dc
              None None = Inr r
         \<and> fst ` set (s_V0 r) = set (dgm_unit ex_dgm) \<inter> set (velmod_unit ex_velmod_no_dc)
         \<and> fst ` set (s_V0_sd r) = set (dgm_unit ex_dgm) \<inter> set (velmod_unit ex_velmod_no_dc)
         \<and> fst ` set (s_k r) = set (dgm_unit ex_dgm) \<inter> set (velmod_unit ex_velmod_no_dc)
         \<and> fst ` set (s_depth r) = set (dgm_unit ex_dgm) \<inter> set (velmod_unit ex_velmod_no_dc)
         \<and> fst ` set (s_ordering r) = set (dgm_unit ex_dgm) \<inter> set (velmod_unit ex_velmod_no_dc))"
proof -
  have h1: "dgm_crs ex_dgm = velmod_crs ex_velmod_no_dc" by code_simp
  have h2: "''mean'' \<in> set (velmod_summary_statistic ex_velmod_no_dc)" by code_simp
  have h3: "''sd'' \<in> set (velmod_summary_statistic ex_velmod_no_dc)" by code_simp
  have h4: "''sk'' \<in> set (velmod_kriging_type ex_velmod_no_dc)" by code_simp
  have h5: "''tvd'' \<in> set (dgm_vars ex_dgm)" by code_simp
  have l6: "set (dgm_unit ex_dgm) \<inter> set (velmod_unit ex_velmod_no_dc) \<noteq> {}" by code_simp
  then have h6: "Some (- 150 :: real) \<noteq> None
        \<longrightarrow> set (dgm_unit ex_dgm) \<inter> set (velmod_unit ex_velmod_no_dc) \<noteq> {}" by simp
  have e1: "''DC'' \<in> set (dgm_unit ex_dgm)" by code_simp
  have e2: "''DC'' \<notin> set (velmod_unit ex_velmod_no_dc)" by code_simp
  have e3: "''ZE'' \<notin> set (dgm_unit ex_dgm)" by code_simp
  have e4: "''ZE'' \<in> set (velmod_unit ex_velmod_no_dc)" by code_simp
  from sampling_on_intersection[where itp = interp_linear and x = "1 / 2" and y = "1 / 2"
      and z = "Some (- 150)" and dgm = ex_dgm and velmod = ex_velmod_no_dc and crs = None
      and xcrs = None, OF h1 h2 h3 h4 h5 h6] h1 h2 h3 h4 h5 l6 e1 e2 e3 e4
  show ?thesis by (intro conjI)
qed

text \<open>
  The claim as stated fails when a depth is given and no unit is in both models: every unit is
  dropped, the search for the active unit runs over an empty unit axis, and sampling raises
  \<open>ValueError\<close> instead of returning a result without units.
\<close>

theorem disjoint_units_with_depth_fail:
  "dgm_crs ex_dgm = velmod_crs ex_velmod_ze
   \<and> ''mean'' \<in> set (velmod_summary_statistic ex_velmod_ze)
   \<and> ''sd'' \<in> set (velmod_summary_statistic ex_velmod_ze)
   \<and> ''sk'' \<in> set (velmod_kriging_type ex_velmod_ze)
   \<and> ''tvd'' \<in> set (dgm_vars ex_dgm)
   \<and> dgm_unit ex_dgm = [''N'', ''NU'', ''DC'']
   \<and> velmod_unit ex_velmod_ze = [''ZE'']
   \<and> sample_dgm_velmod interp_linear (1 / 2) (1 / 2) (Some (- 150)) ex_dgm ex_velmod_ze None None
       = Inl ValueError"
  by (intro conjI; code_simp)

text \<open>
  Claim C10. The fields \<open>V0\<close> and \<open>V0_sd\<close> of a sample are the interpolated gap-filled
  intercept, at the statistics \<open>mean\<close> and \<open>sd\<close> under simple kriging, never the raw
  intercept. Hence at a query on a grid node where the interpolation returns the node value,
  where the raw intercept of a unit is no-data and the unit has valid cells \<open>rs\<close>, the sampled
  \<open>V0\<close> of that unit is the mean of \<open>rs\<close>, not no-data.
\<close>

theorem sampled_V0_is_filled:
  assumes "sample_dgm_velmod itp x y z dgm velmod crs xcrs = Inr r"
  shows "(\<forall>p \<in> set (s_V0 r). snd p = itp (velmod_x velmod) (velmod_y velmod)
                                      (velmod_V0_filled velmod (fst p) ''sk'' ''mean'') x y)
       \<and> (\<forall>p \<in> set (s_V0_sd r). snd p = itp (velmod_x velmod) (velmod_y velmod)
                                      (velmod_V0_filled velmod (fst p) ''sk'' ''sd'') x y)
       \<and> (convert_velmod raw = Inr velmod \<and> (u, v) \<in> set (s_V0 r)
            \<and> x \<in> set (velmod_x velmod) \<and> y \<in> set (velmod_y velmod)
            \<and> itp (velmod_x velmod) (velmod_y velmod) (velmod_V0_filled velmod u ''sk'' ''mean'') x y
                = velmod_V0_filled velmod u ''sk'' ''mean'' x y
            \<and> velmod_V0 velmod u ''sk'' ''mean'' x y = NaN
            \<and> rs \<noteq> []
            \<and> filter (\<lambda>c. c \<noteq> NaN)
                 (cells (velmod_x velmod) (velmod_y velmod) (velmod_V0 velmod u ''sk'' ''mean''))
                = map Fin rs
          \<longrightarrow> v = Fin (sum_list rs / real (length rs)))"
proof (intro conjI impI)
  show m: "\<forall>p \<in> set (s_V0 r). snd p = itp (velmod_x velmod) (velmod_y velmod)
                                      (velmod_V0_filled velmod (fst p) ''sk'' ''mean'') x y"
    by (auto simp: sample_fields(1)[OF assms] V0_filled_itp_def)
  show "\<forall>p \<in> set (s_V0_sd r). snd p = itp (velmod_x velmod) (velmod_y velmod)
                                      (velmod_V0_filled velmod (fst p) ''sk'' ''sd'') x y"
    by (auto simp: sample_fields(2)[OF assms] V0_filled_itp_def)
  assume a: "convert_velmod raw = Inr velmod \<and> (u, v) \<in> set (s_V0 r)
            \<and> x \<in> set (velmod_x velmod) \<and> y \<in> set (velmod_y velmod)
            \<and> itp (velmod_x velmod) (velmod_y velmod) (velmod_V0_filled velmod u ''sk'' ''mean'') x y
                = velmod_V0_filled velmod u ''sk'' ''mean'' x y
            \<and> velmod_V0 velmod u ''sk'' ''mean'' x y = NaN
            \<and> rs \<noteq> []
            \<and> filter (\<lambda>c. c \<noteq> NaN)
                 (cells (velmod_x velmod) (velmod_y velmod) (velmod_V0 velmod u ''sk'' ''mean''))
                = map Fin rs"
  then have cv: "convert_velmod raw = Inr velmod" by blast
  from a m have "v = velmod_V0_filled velmod u ''sk'' ''mean'' x y" by force
  also have "\<dots> = nanmean (cells (velmod_x velmod) (velmod_y velmod)
                              (velmod_V0 velmod u ''sk'' ''mean''))"
    using a by (simp add: V0_filled_cell[OF cv])
  also have "\<dots> = Fin (sum_list rs / real (length rs))"
    using a by (simp add: nanmean_finite)
  finally show "v = Fin (sum_list rs / real (length rs))" .
qed

theorem sampled_V0_is_filled_witness:
  "sample_dgm_velmod interp_linear 0 0 None ex_dgm ex_velmod None None = Inr ex_samples_node
   \<and> convert_velmod (ex_velmodxrds [''ZE'', ''NU'', ''N'', ''DC'']) = Inr ex_velmod
   \<and> (''N'', Fin 1500) \<in> set (s_V0 ex_samples_node)
   \<and> 0 \<in> set (velmod_x ex_velmod) \<and> 0 \<in> set (velmod_y ex_velmod)
   \<and> interp_linear (velmod_x ex_velmod) (velmod_y ex_velmod)
        (velmod_V0_filled ex_velmod ''N'' ''sk'' ''mean'') 0 0
       = velmod_V0_filled ex_velmod ''N'' ''sk'' ''mean'' 0 0
   \<and> velmod_V0 ex_velmod ''N'' ''sk'' ''mean'' 0 0 = NaN
   \<and> filter (\<lambda>c. c \<noteq> NaN)
        (cells (velmod_x ex_velmod) (velmod_y ex_velmod) (velmod_V0 ex_velmod ''N'' ''sk'' ''mean''))
       = map Fin [1500, 1400, 1600]
   \<and> Fin 1500 = Fin (sum_list [1500, 1400, 1600] / real (length [1500 :: real, 1400, 1600]))
   \<and> list_all (\<lambda>p. snd p = interp_linear (velmod_x ex_velmod) (velmod_y ex_velmod)
                              (velmod_V0_filled ex_velmod (fst p) ''sk'' ''mean'') 0 0)
        (s_V0 ex_samples_node)
   \<and> list_all (\<lambda>p. snd p = interp_linear (velmod_x ex_velmod) (velmod_y ex_velmod)
                              (velmod_V0_filled ex_velmod (fst p) ''sk'' ''sd'') 0 0)
        (s_V0_sd ex_samples_node)"
proof -
  have h1: "(''N'', Fin 1500) \<in> set (s_V0 ex_samples_node)" by code_simp
  have h2: "0 \<in> set (velmod_x ex_velmod)" "0 \<in> set (velmod_y ex_velmod)" by code_simp+
  have h3: "interp_linear (velmod_x ex_velmod) (velmod_y ex_velmod)
        (velmod_V0_filled ex_velmod ''N'' ''sk'' ''mean'') 0 0
       = velmod_V0_filled ex_velmod ''N'' ''sk'' ''mean'' 0 0" by code_simp
  have h4: "velmod_V0 ex_velmod ''N'' ''sk'' ''mean'' 0 0 = NaN" by code_simp
  have h5: "filter (\<lambda>c. c \<noteq> NaN)
        (cells (velmod_x ex_velmod) (velmod_y ex_velmod) (velmod_V0 ex_velmod ''N'' ''sk'' ''mean''))
       = map Fin [1500, 1400, 1600]" by code_simp
  have h6: "[1500 :: real, 1400, 1600] \<noteq> []" by simp
  note t = sampled_V0_is_filled[OF ex_sample_node, where raw = "ex_velmodxrds [''ZE'', ''NU'', ''N'', ''DC'']"
      and u = "''N''" and v = "Fin 1500" and rs = "[1500, 1400, 1600]"]
  from t ex_velmod_converted h1 h2 h3 h4 h5 h6
  have c: "Fin 1500 = Fin (sum_list [1500, 1400, 1600] / real (length [1500 :: real, 1400, 1600]))"
    by blast
  from t ex_sample_node ex_velmod_converted h1 h2 h3 h4 h5 c show ?thesis
    unfolding list_all_iff by (intro conjI) blast+
qed

subsection \<open>The assembled models\<close>

text \<open>
  Claim C7. Each assembled model keeps its units: the unit axis of the VELMOD model is a
  rearrangement of the unit axis of its input, and the unit axis of the DGM model holds the
  units of the input files and \<open>DC\<close>, each once. In both models the ordering variable of
  every unit is the position of the unit in the canonical order, and the unit axis is sorted
  ascending on it.
\<close>

theorem ordering_is_canonical_index:
  "(convert_velmod r = Inr m \<longrightarrow>
      set (velmod_unit m) = set (vr_unit r)
      \<and> (\<forall>u. count_list (velmod_unit m) u = count_list (vr_unit r) u)
      \<and> (\<forall>u \<in> set (velmod_unit m). 0 \<le> velmod_ordering m u
          \<and> nat (velmod_ordering m u) < length unit_canonical_order
          \<and> unit_canonical_order ! nat (velmod_ordering m u) = u)
      \<and> sorted (map (velmod_ordering m) (velmod_unit m)))
   \<and> (convert_dgm dgmds = Inr d \<longrightarrow>
      set (dgm_unit d) = insert ''DC'' (set (map z_unit dgmds))
      \<and> distinct (dgm_unit d)
      \<and> (\<forall>u \<in> set (dgm_unit d). 0 \<le> dgm_ordering d u
          \<and> nat (dgm_ordering d u) < length unit_canonical_order
          \<and> unit_canonical_order ! nat (dgm_ordering d u) = u)
      \<and> sorted (map (dgm_ordering d) (dgm_unit d)))"
proof (intro conjI impI)
  assume a: "convert_velmod r = Inr m"
  from convert_velmod_InrD[OF a] obtain ord where
    ord: "ordering_loop (vr_unit r) (\<lambda>_. 0) = Inr ord" "velmod_ordering m = ord"
         "velmod_unit m = sortby ord (vr_unit r)" by blast
  show "set (velmod_unit m) = set (vr_unit r)"
    by (simp only: ord(3) set_sortby)
  show "\<forall>u. count_list (velmod_unit m) u = count_list (vr_unit r) u"
    by (simp only: ord(3) count_list_sortby simp_thms)
  from ordering_loop_canonical[OF ord(1)]
  show "\<forall>u \<in> set (velmod_unit m). 0 \<le> velmod_ordering m u
          \<and> nat (velmod_ordering m u) < length unit_canonical_order
          \<and> unit_canonical_order ! nat (velmod_ordering m u) = u"
    by (simp add: ord(2,3) set_sortby)
  show "sorted (map (velmod_ordering m) (velmod_unit m))"
    by (simp only: ord(2,3) sorted_sortby)
next
  assume a: "convert_dgm dgmds = Inr d"
  from convert_dgm_InrD[OF a] obtain d0 ord where
    ord: "ordering_loop (sort (remdups (map z_unit (dgmds @ [last_entry d0])))) (\<lambda>_. 0) = Inr ord"
         "dgm_ordering d = ord"
         "dgm_unit d = sortby ord (sort (remdups (map z_unit (dgmds @ [last_entry d0]))))"
    by blast
  show "set (dgm_unit d) = insert ''DC'' (set (map z_unit dgmds))"
    by (auto simp: ord(3) set_sortby last_entry_def)
  show "distinct (dgm_unit d)"
    by (simp add: ord(3) distinct_sortby)
  from ordering_loop_canonical[OF ord(1)]
  show "\<forall>u \<in> set (dgm_unit d). 0 \<le> dgm_ordering d u
          \<and> nat (dgm_ordering d u) < length unit_canonical_order
          \<and> unit_canonical_order ! nat (dgm_ordering d u) = u"
    by (simp add: ord(2,3) set_sortby)
  show "sorted (map (dgm_ordering d) (dgm_unit d))"
    by (simp only: ord(2,3) sorted_sortby)
qed

theorem ordering_is_canonical_index_witness:
  "convert_velmod (ex_velmodxrds [''ZE'', ''NU'', ''N'', ''DC'']) = Inr ex_velmod
   \<and> convert_dgm ex_dgmds = Inr ex_dgm
   \<and> set (velmod_unit ex_velmod) = set (vr_unit (ex_velmodxrds [''ZE'', ''NU'', ''N'', ''DC'']))
   \<and> (\<forall>u. count_list (velmod_unit ex_velmod) u
            = count_list (vr_unit (ex_velmodxrds [''ZE'', ''NU'', ''N'', ''DC''])) u)
   \<and> list_all (\<lambda>u. 0 \<le> velmod_ordering ex_velmod u
          \<and> nat (velmod_ordering ex_velmod u) < length unit_canonical_order
          \<and> unit_canonical_order ! nat (velmod_ordering ex_velmod u) = u) (velmod_unit ex_velmod)
   \<and> sorted (map (velmod_ordering ex_velmod) (velmod_unit ex_velmod))
   \<and> set (dgm_unit ex_dgm) = insert ''DC'' (set (map z_unit ex_dgmds))
   \<and> distinct (dgm_unit ex_dgm)
   \<and> list_all (\<lambda>u. 0 \<le> dgm_ordering ex_dgm u
          \<and> nat (dgm_ordering ex_dgm u) < length unit_canonical_order
          \<and> unit_canonical_order ! nat (dgm_ordering ex_dgm u) = u) (dgm_unit ex_dgm)
   \<and> sorted (map (dgm_ordering ex_dgm) (dgm_unit ex_dgm))
   \<and> velmod_unit ex_velmod = [''N'', ''NU'', ''ZE'', ''DC'']
   \<and> dgm_unit ex_dgm = [''N'', ''NU'', ''DC'']"
proof -
  note t = ordering_is_canonical_index[of "ex_velmodxrds [''ZE'', ''NU'', ''N'', ''DC'']" ex_velmod
      ex_dgmds ex_dgm]
  have v: "velmod_unit ex_velmod = [''N'', ''NU'', ''ZE'', ''DC'']" by code_simp
  have d: "dgm_unit ex_dgm = [''N'', ''NU'', ''DC'']" by code_simp
  from t ex_velmod_converted ex_dgm_converted v d show ?thesis
    unfolding list_all_iff by blast
qed

text \<open>
  Claim C8. In the assembled VELMOD model the gap-filled intercept equals the intercept where
  it is valid and, where it is no-data, the mean of the valid cells of the same unit (of the
  same kriging type and statistic): for valid cells \<open>rs\<close> their sum over their number. When a
  unit has no valid cell its filled cells stay no-data, and the conversion succeeds whatever
  the intercept values are.
\<close>

theorem V0_filled_unit_mean:
  assumes "convert_velmod r = Inr m"
  shows "velmod_V0_filled m u kt st x y =
           (if velmod_V0 m u kt st x y = NaN
            then nanmean (cells (velmod_x m) (velmod_y m) (velmod_V0 m u kt st))
            else velmod_V0 m u kt st x y)
       \<and> (rs \<noteq> [] \<and> filter (\<lambda>v. v \<noteq> NaN) (cells (velmod_x m) (velmod_y m) (velmod_V0 m u kt st))
                       = map Fin rs
            \<longrightarrow> nanmean (cells (velmod_x m) (velmod_y m) (velmod_V0 m u kt st))
                  = Fin (sum_list rs / real (length rs)))
       \<and> ((\<forall>c \<in> set (cells (velmod_x m) (velmod_y m) (velmod_V0 m u kt st)). c = NaN)
             \<and> x \<in> set (velmod_x m) \<and> y \<in> set (velmod_y m)
            \<longrightarrow> velmod_V0_filled m u kt st x y = NaN)
       \<and> (\<exists>m'. convert_velmod (r \<lparr> vr_V0 := V \<rparr>) = Inr m')"
proof (intro conjI impI)
  show "velmod_V0_filled m u kt st x y =
           (if velmod_V0 m u kt st x y = NaN
            then nanmean (cells (velmod_x m) (velmod_y m) (velmod_V0 m u kt st))
            else velmod_V0 m u kt st x y)"
    by (rule V0_filled_cell[OF assms])
next
  assume "rs \<noteq> [] \<and> filter (\<lambda>v. v \<noteq> NaN) (cells (velmod_x m) (velmod_y m) (velmod_V0 m u kt st))
                       = map Fin rs"
  then show "nanmean (cells (velmod_x m) (velmod_y m) (velmod_V0 m u kt st))
                  = Fin (sum_list rs / real (length rs))"
    by (simp add: nanmean_finite)
next
  assume a: "(\<forall>c \<in> set (cells (velmod_x m) (velmod_y m) (velmod_V0 m u kt st)). c = NaN)
             \<and> x \<in> set (velmod_x m) \<and> y \<in> set (velmod_y m)"
  then have "velmod_V0 m u kt st x y = NaN"
    using cell_in_cells[of x "velmod_x m" y "velmod_y m" "velmod_V0 m u kt st"] by blast
  with a show "velmod_V0_filled m u kt st x y = NaN"
    by (simp add: V0_filled_cell[OF assms] nanmean_all_nan)
next
  from assms have "\<exists>m. convert_velmod r = Inr m" by blast
  then have "(\<exists>ord. ordering_loop (vr_unit (r \<lparr> vr_V0 := V \<rparr>)) (\<lambda>_. 0) = Inr ord)
               \<and> ''ZE'' \<in> set (vr_unit (r \<lparr> vr_V0 := V \<rparr>))"
    by (simp add: convert_velmod_success)
  then show "\<exists>m'. convert_velmod (r \<lparr> vr_V0 := V \<rparr>) = Inr m'"
    by (simp only: convert_velmod_success)
qed

theorem V0_filled_unit_mean_witness:
  "convert_velmod (ex_velmodxrds [''ZE'', ''NU'', ''N'', ''DC'']) = Inr ex_velmod
   \<and> velmod_V0 ex_velmod ''N'' ''sk'' ''mean'' 0 0 = NaN
   \<and> filter (\<lambda>v. v \<noteq> NaN)
        (cells (velmod_x ex_velmod) (velmod_y ex_velmod) (velmod_V0 ex_velmod ''N'' ''sk'' ''mean''))
       = map Fin [1500, 1400, 1600]
   \<and> velmod_V0_filled ex_velmod ''N'' ''sk'' ''mean'' 0 0 = Fin ((1500 + 1400 + 1600) / 3)
   \<and> list_all (\<lambda>c. c = NaN)
        (cells (velmod_x ex_velmod) (velmod_y ex_velmod) (velmod_V0 ex_velmod ''DC'' ''sk'' ''mean''))
   \<and> 0 \<in> set (velmod_x ex_velmod) \<and> 0 \<in> set (velmod_y ex_velmod)
   \<and> velmod_V0_filled ex_velmod ''DC'' ''sk'' ''mean'' 0 0 = NaN"
proof -
  have h1: "velmod_V0 ex_velmod ''N'' ''sk'' ''mean'' 0 0 = NaN" by code_simp
  have h2: "filter (\<lambda>v. v \<noteq> NaN)
        (cells (velmod_x ex_velmod) (velmod_y ex_velmod) (velmod_V0 ex_velmod ''N'' ''sk'' ''mean''))
       = map Fin [1500, 1400, 1600]" by code_simp
  have l3: "list_all (\<lambda>c. c = NaN)
        (cells (velmod_x ex_velmod) (velmod_y ex_velmod) (velmod_V0 ex_velmod ''DC'' ''sk'' ''mean''))"
    by code_simp
  then have h3: "\<forall>c \<in> set (cells (velmod_x ex_velmod) (velmod_y ex_velmod)
                    (velmod_V0 ex_velmod ''DC'' ''sk'' ''mean'')). c = NaN"
    by (simp only: list_all_iff)
  have h4: "0 \<in> set (velmod_x ex_velmod)" "0 \<in> set (velmod_y ex_velmod)" by code_simp+
  note n = V0_filled_unit_mean[OF ex_velmod_converted, where u = "''N''" and kt = "''sk''"
      and st = "''mean''" and x = 0 and y = 0 and rs = "[1500, 1400, 1600]"]
  note d = V0_filled_unit_mean[OF ex_velmod_converted, where u = "''DC''" and kt = "''sk''"
      and st = "''mean''" and x = 0 and y = 0]
  from n h1 h2 have f: "velmod_V0_filled ex_velmod ''N'' ''sk'' ''mean'' 0 0
      = Fin ((1500 + 1400 + 1600) / 3)" by simp
  from d h3 h4 have g: "velmod_V0_filled ex_velmod ''DC'' ''sk'' ''mean'' 0 0 = NaN" by blast
  from ex_velmod_converted h1 h2 f l3 h4 g show ?thesis by (intro conjI)
qed




end
